theory Spec2Isabelle
  imports Main "HOL-Library.Word" "HOL-Library.Signed_Division"
begin

section \<open>The sample contract of the testbed\<close>

text \<open>
  The contract \<^verbatim>\<open>test-contract.smart.c\<close> is a SmartC program: a loop over the
  transactions of the current block that dispatches on the first long of the message.
  SmartC's only integer type is \<^verbatim>\<open>long\<close>, a signed 64-bit machine integer; its
  arithmetic wraps modulo \<open>2 ^ 64\<close>, comparisons are signed and division truncates
  towards zero.
\<close>

subsection \<open>Machine integers\<close>

type_synonym long = "64 word"

text \<open>
  The \<^verbatim>\<open>/\<close> of the language: signed division, truncating towards zero. The
  contract divides by the constant 100 only, so a zero divisor does not arise.
\<close>

definition long_div :: "long \<Rightarrow> long \<Rightarrow> long" where
  "long_div a b = word_of_int (sint a sdiv sint b)"

subsection \<open>Magic codes for methods\<close>

definition FORWARD_PERCENTAGE :: long where "FORWARD_PERCENTAGE = 1"
definition UPDATE_PERCENTAGE :: long where "UPDATE_PERCENTAGE = 2"
definition SET_MAP_VALUE :: long where "SET_MAP_VALUE = 3"
definition PULL_FUNDS :: long where "PULL_FUNDS = 4"

definition MAP_KEY_EXAMPLE :: long where "MAP_KEY_EXAMPLE = 1"

subsection \<open>The host\<close>

text \<open>
  Modelled from the spec: the host runtime (transaction queue, ledger, key-value store
  and the built-in functions the contract calls) is not part of the contract's source.
  A transaction carries an id, a sender, the attached native amount and a message of
  longs.
\<close>

record transaction =
  tx_id :: long
  tx_sender :: long
  tx_amount :: long
  tx_payload :: "long list"

datatype fault = InsufficientFunds | Overflow

type_synonym balances = "long \<Rightarrow> long \<Rightarrow> long"

text \<open>
  Modelled from the spec: the host state. \<open>queue\<close> holds the transactions of the block in
  arrival order and \<open>cursor\<close> is the read cursor; \<open>ledger\<close> gives the balance of an
  account for an asset id (asset 0 is the native asset, unknown accounts hold 0);
  \<open>kvstore\<close> has no entry for a key until it is first written; \<open>creator\<close> is the
  deploying account and \<open>self\<close> the contract's own account.
\<close>

record host =
  queue :: "transaction list"
  cursor :: nat
  ledger :: balances
  kvstore :: "long \<times> long \<Rightarrow> long option"
  creator :: long
  self :: long

text \<open>Modelled from the spec: the ledger primitives of section 4.2.\<close>

definition balanceOf :: "long \<Rightarrow> long \<Rightarrow> balances \<Rightarrow> long" where
  "balanceOf account assetId L = L account assetId"

definition set_balance :: "long \<Rightarrow> long \<Rightarrow> long \<Rightarrow> balances \<Rightarrow> balances" where
  "set_balance account assetId v L = L(account := (L account)(assetId := v))"

text \<open>
  Modelled from the spec: a debit fails with \<open>InsufficientFunds\<close> when the balance is
  below the amount, a credit fails with \<open>Overflow\<close> when the result would leave the
  integer domain. By section 3 balances are never negative and no arithmetic of the
  ledger wraps around, so the domain of a balance is \<open>0 .. 2 ^ 63 - 1\<close> and a result
  outside it, on either side, is the fault \<open>Overflow\<close>.
\<close>

definition debit :: "long \<Rightarrow> long \<Rightarrow> long \<Rightarrow> balances \<Rightarrow> fault + balances" where
  "debit account assetId amount L =
     (if balanceOf account assetId L <s amount then Inl InsufficientFunds
      else if 2 ^ 63 - 1 < sint (balanceOf account assetId L) - sint amount then Inl Overflow
      else Inr (set_balance account assetId (balanceOf account assetId L - amount) L))"

definition credit :: "long \<Rightarrow> long \<Rightarrow> long \<Rightarrow> balances \<Rightarrow> fault + balances" where
  "credit account assetId amount L =
     (if 2 ^ 63 - 1 < sint (balanceOf account assetId L) + sint amount
         \<or> sint (balanceOf account assetId L) + sint amount < 0
      then Inl Overflow
      else Inr (set_balance account assetId (balanceOf account assetId L + amount) L))"

text \<open>
  Modelled from the spec: debit, then credit. A failing credit returns the fault and the
  debited ledger is dropped, which is the rollback.
\<close>

definition transfer :: "long \<Rightarrow> long \<Rightarrow> long \<Rightarrow> long \<Rightarrow> balances \<Rightarrow> fault + balances" where
  "transfer src dst assetId amount L =
     (case debit src assetId amount L of
        Inl f \<Rightarrow> Inl f
      | Inr L1 \<Rightarrow> credit dst assetId amount L1)"

text \<open>Modelled from the spec: the built-in functions of section 6.\<close>

definition getNextTx :: "'a host_scheme \<Rightarrow> long \<times> 'a host_scheme" where
  "getNextTx h =
     (if cursor h < length (queue h)
      then (tx_id (queue h ! cursor h), h\<lparr>cursor := Suc (cursor h)\<rparr>)
      else (0, h))"

definition find_tx :: "long \<Rightarrow> 'a host_scheme \<Rightarrow> transaction option" where
  "find_tx t h = find (\<lambda>x. tx_id x = t) (queue h)"

definition getSender :: "long \<Rightarrow> 'a host_scheme \<Rightarrow> long" where
  "getSender t h = (case find_tx t h of None \<Rightarrow> 0 | Some x \<Rightarrow> tx_sender x)"

definition getAmount :: "long \<Rightarrow> 'a host_scheme \<Rightarrow> long" where
  "getAmount t h = (case find_tx t h of None \<Rightarrow> 0 | Some x \<Rightarrow> tx_amount x)"

definition page :: "long \<Rightarrow> long list \<Rightarrow> long list" where
  "page offset payload = take 4 (drop (unat offset) payload @ replicate 4 0)"

definition readMessage :: "long \<Rightarrow> long \<Rightarrow> 'a host_scheme \<Rightarrow> long list" where
  "readMessage t offset h =
     (case find_tx t h of None \<Rightarrow> replicate 4 0 | Some x \<Rightarrow> page offset (tx_payload x))"

definition getCreator :: "'a host_scheme \<Rightarrow> long" where
  "getCreator h = creator h"

definition getAssetBalance :: "long \<Rightarrow> 'a host_scheme \<Rightarrow> long" where
  "getAssetBalance assetId h = balanceOf (self h) assetId (ledger h)"

definition sendQuantity :: "long \<Rightarrow> long \<Rightarrow> long \<Rightarrow> 'a host_scheme \<Rightarrow> fault + 'a host_scheme" where
  "sendQuantity amount assetId recipientId h =
     (case transfer (self h) recipientId assetId amount (ledger h) of
        Inl f \<Rightarrow> Inl f
      | Inr L \<Rightarrow> Inr (h\<lparr>ledger := L\<rparr>))"

definition sendAmount :: "long \<Rightarrow> long \<Rightarrow> 'a host_scheme \<Rightarrow> fault + 'a host_scheme" where
  "sendAmount amount recipientId h = sendQuantity amount 0 recipientId h"

definition sendBalance :: "long \<Rightarrow> 'a host_scheme \<Rightarrow> fault + 'a host_scheme" where
  "sendBalance recipientId h = sendAmount (balanceOf (self h) 0 (ledger h)) recipientId h"

definition setMapValue :: "long \<Rightarrow> long \<Rightarrow> long \<Rightarrow> 'a host_scheme \<Rightarrow> 'a host_scheme" where
  "setMapValue key1 key2 v h = h\<lparr>kvstore := (kvstore h)((key1, key2) \<mapsto> v)\<rparr>"

definition getMapValue :: "long \<Rightarrow> long \<Rightarrow> 'a host_scheme \<Rightarrow> long" where
  "getMapValue key1 key2 h = (case kvstore h (key1, key2) of None \<Rightarrow> 0 | Some v \<Rightarrow> v)"

subsection \<open>The contract's memory\<close>

text \<open>\<^verbatim>\<open>struct TXINFO { long txId; long sender; long message[4]; } currentTx;\<close>\<close>

record TXINFO =
  txId :: long
  sender :: long
  message :: "long list"

text \<open>
  The globals \<^verbatim>\<open>percentage\<close>, \<^verbatim>\<open>text\<close> and \<^verbatim>\<open>currentTx\<close>, on top of the host
  state the built-in functions work on.
\<close>

record machine = host +
  percentage :: long
  text_var :: long
  currentTx :: TXINFO

text \<open>
  Deployment. Memory starts zeroed. Under \<^verbatim>\<open>#ifdef TESTBED\<close> the two globals start
  with the values of the macros \<^verbatim>\<open>TESTBED_percentage\<close> and \<^verbatim>\<open>TESTBED_text\<close>, which
  are not defined in the source: \<open>testbed\<close> is \<open>None\<close> when \<^verbatim>\<open>TESTBED\<close> is not defined
  and \<open>Some (TESTBED_percentage, TESTBED_text)\<close> when it is.
\<close>

definition deploy :: "(long \<times> long) option \<Rightarrow> host \<Rightarrow> machine" where
  "deploy testbed h =
     \<lparr>queue = queue h, cursor = cursor h, ledger = ledger h, kvstore = kvstore h,
      creator = creator h, self = self h,
      percentage = (case testbed of None \<Rightarrow> 0 | Some (p, t) \<Rightarrow> p),
      text_var = (case testbed of None \<Rightarrow> 0 | Some (p, t) \<Rightarrow> t),
      currentTx = \<lparr>txId = 0, sender = 0, message = replicate 4 0\<rparr>\<rparr>"

text \<open>\<^verbatim>\<open>void constructor() { };\<close>\<close>

definition constructor :: "machine \<Rightarrow> machine" where
  "constructor s = s"

subsection \<open>The handlers\<close>

definition pullFunds :: "long \<Rightarrow> machine \<Rightarrow> fault + machine" where
  "pullFunds tokenId s =
     (if sender (currentTx s) \<noteq> getCreator s then Inr s
      else if tokenId = 0 then sendBalance (getCreator s) s
      else sendQuantity (getAssetBalance tokenId s) tokenId (getCreator s) s)"

definition updatePercentage :: "long \<Rightarrow> machine \<Rightarrow> fault + machine" where
  "updatePercentage newPercentage s =
     (if sender (currentTx s) \<noteq> getCreator s then Inr s
      else if 100 <s newPercentage then Inr (s\<lparr>percentage := 100\<rparr>)
      else if newPercentage <s 0 then Inr (s\<lparr>percentage := 0\<rparr>)
      else Inr (s\<lparr>percentage := newPercentage\<rparr>))"

definition forwardPercentage :: "long \<Rightarrow> machine \<Rightarrow> fault + machine" where
  "forwardPercentage recipientId s =
     (if percentage s = 0 then Inr s
      else let amount = getAmount (txId (currentTx s)) s
           in sendAmount (long_div (amount * percentage s) 100) recipientId s)"

subsection \<open>The main loop\<close>

text \<open>The two reads at the top of the loop body: sender, then message.\<close>

definition load_tx :: "machine \<Rightarrow> machine" where
  "load_tx s =
     (let s1 = s\<lparr>currentTx := (currentTx s)\<lparr>sender := getSender (txId (currentTx s)) s\<rparr>\<rparr>
      in s1\<lparr>currentTx := (currentTx s1)\<lparr>message := readMessage (txId (currentTx s1)) 0 s1\<rparr>\<rparr>)"

text \<open>The \<^verbatim>\<open>switch\<close> on \<^verbatim>\<open>currentTx.message[0]\<close>; it has no default case.\<close>

definition dispatch :: "machine \<Rightarrow> fault + machine" where
  "dispatch s =
     (let m = message (currentTx s) in
      if m ! 0 = FORWARD_PERCENTAGE then forwardPercentage (m ! 1) s
      else if m ! 0 = UPDATE_PERCENTAGE then updatePercentage (m ! 1) s
      else if m ! 0 = SET_MAP_VALUE then Inr (setMapValue MAP_KEY_EXAMPLE (m ! 1) (m ! 2) s)
      else if m ! 0 = PULL_FUNDS then pullFunds (m ! 1) s
      else Inr s)"

text \<open>The body of the loop for the transaction whose id is in \<^verbatim>\<open>currentTx.txId\<close>.\<close>

definition loop_body :: "machine \<Rightarrow> fault + machine" where
  "loop_body s = dispatch (load_tx s)"

text \<open>
  A fault of the host enters \<^verbatim>\<open>catch()\<close>, whose body is \<^verbatim>\<open>JMP :__fn_main\<close>: the
  loop starts again with the next transaction, the memory as the failed call left it.
\<close>

definition catch :: "machine \<Rightarrow> fault + machine \<Rightarrow> machine" where
  "catch s r = (case r of Inl f \<Rightarrow> s | Inr s' \<Rightarrow> s')"

definition set_txId :: "long \<Rightarrow> machine \<Rightarrow> machine" where
  "set_txId t s = s\<lparr>currentTx := (currentTx s)\<lparr>txId := t\<rparr>\<rparr>"

definition run_tx :: "machine \<Rightarrow> machine" where
  "run_tx s = catch (load_tx s) (loop_body s)"

function main :: "machine \<Rightarrow> machine" where
  "main s =
     (case getNextTx s of
        (nxt, s0) \<Rightarrow>
          let s1 = set_txId nxt s0
          in if nxt = 0 then s1 else main (run_tx s1))"
  by pat_completeness auto
termination
proof (relation "measure (\<lambda>s. length (queue s) - cursor s)", goal_cases)
  case 1
  show ?case by simp
next
  case (2 s nxt s0 s1)
  have q: "queue (load_tx t) = queue t \<and> cursor (load_tx t) = cursor t" for t
    by (simp add: load_tx_def Let_def)
  have sq: "queue t' = queue t \<and> cursor t' = cursor t"
    if "sendQuantity a k r t = Inr t'" for a k r and t t' :: machine
    using that by (auto simp: sendQuantity_def split: sum.splits)
  have d: "queue t' = queue t \<and> cursor t' = cursor t" if "dispatch t = Inr t'" for t t'
    using that
    by (auto simp: dispatch_def Let_def forwardPercentage_def updatePercentage_def
        pullFunds_def setMapValue_def sendAmount_def sendBalance_def
        split: if_splits dest: sq)
  have r: "queue (run_tx t) = queue t \<and> cursor (run_tx t) = cursor t" for t
    by (auto simp: run_tx_def catch_def loop_body_def q split: sum.splits dest: d)
  have "getNextTx s = (nxt, s0)"
    using 2(1) by simp
  with 2(3) have "cursor s < length (queue s)" and "queue s0 = queue s"
    and "cursor s0 = Suc (cursor s)"
    by (auto simp: getNextTx_def split: if_splits)
  then show ?case
    using 2(2) by (simp add: r set_txId_def)
qed

declare main.simps [simp del]

subsection \<open>Reading a transaction\<close>

text \<open>Slot \<open>i\<close> of the message as \<^verbatim>\<open>readMessage(txId, 0, currentTx.message)\<close> fills it.\<close>

definition slot :: "nat \<Rightarrow> transaction \<Rightarrow> long" where
  "slot i x = page 0 (tx_payload x) ! i"

text \<open>The range the comment in \<^verbatim>\<open>main\<close> gives for the percentage: 0 to 100.\<close>

definition percentage_ok :: "machine \<Rightarrow> bool" where
  "percentage_ok s = (0 \<le> sint (percentage s) \<and> sint (percentage s) \<le> 100)"

text \<open>
  The spec's reading of one round of the loop, to be compared with \<open>main\<close>: the
  transaction \<open>x\<close> is taken from the queue, its id, sender and message are read, and
  only then is it dispatched.
\<close>

definition process :: "transaction \<Rightarrow> machine \<Rightarrow> machine" where
  "process x s =
     (let s1 = s\<lparr>cursor := Suc (cursor s),
                  currentTx := \<lparr>txId = tx_id x, sender = tx_sender x,
                                message = page 0 (tx_payload x)\<rparr>\<rparr>
      in catch s1 (dispatch s1))"

subsection \<open>Sample blocks\<close>

definition tx :: "long \<Rightarrow> long \<Rightarrow> long \<Rightarrow> long list \<Rightarrow> transaction" where
  "tx i a v m = \<lparr>tx_id = i, tx_sender = a, tx_amount = v, tx_payload = m\<rparr>"

definition no_funds :: balances where
  "no_funds = (\<lambda>account assetId. 0)"

text \<open>A block for a contract created by account 10 and living at account 20.\<close>

definition block :: "transaction list \<Rightarrow> balances \<Rightarrow> host" where
  "block q L =
     \<lparr>queue = q, cursor = 0, ledger = L, kvstore = Map.empty, creator = 10, self = 20\<rparr>"

text \<open>The machine right after \<^verbatim>\<open>currentTx.txId = getNextTx()\<close> at the loop head.\<close>

definition fetch :: "machine \<Rightarrow> machine" where
  "fetch s = (case getNextTx s of (nxt, s0) \<Rightarrow> set_txId nxt s0)"

text \<open>
  The machine that has just fetched the only transaction \<open>x\<close> of a block, the
  percentage being \<open>p\<close>.
\<close>

definition fetched :: "transaction \<Rightarrow> long \<Rightarrow> balances \<Rightarrow> machine" where
  "fetched x p L = fetch (deploy (Some (p, 0)) (block [x] L))"

section \<open>Properties\<close>

lemmas magic_codes =
  FORWARD_PERCENTAGE_def UPDATE_PERCENTAGE_def SET_MAP_VALUE_def PULL_FUNDS_def
  MAP_KEY_EXAMPLE_def

lemmas sample_defs =
  fetched_def fetch_def getNextTx_def deploy_def block_def tx_def set_txId_def no_funds_def

lemmas ledger_defs = transfer_def debit_def credit_def balanceOf_def set_balance_def

lemma length_page [simp]: "length (page off p) = 4"
  by (simp add: page_def)

lemma find_tx_load_tx [simp]: "find_tx t (load_tx s) = find_tx t s"
  by (simp add: find_tx_def load_tx_def Let_def)

lemma currentTx_load_tx:
  "find_tx (txId (currentTx s)) s = Some x \<Longrightarrow>
   currentTx (load_tx s) =
     \<lparr>txId = txId (currentTx s), sender = tx_sender x, message = page 0 (tx_payload x)\<rparr>"
  by (simp add: load_tx_def Let_def getSender_def readMessage_def find_tx_def)

lemma load_tx_host [simp]:
  "queue (load_tx s) = queue s" "cursor (load_tx s) = cursor s"
  "ledger (load_tx s) = ledger s" "kvstore (load_tx s) = kvstore s"
  "creator (load_tx s) = creator s" "self (load_tx s) = self s"
  "percentage (load_tx s) = percentage s" "text_var (load_tx s) = text_var s"
  by (simp_all add: load_tx_def Let_def)

lemma long_div_exact:
  assumes "0 \<le> sint a * sint p" and "sint a * sint p < 2 ^ 63"
  shows "sint (long_div (a * p) 100) = (sint a * sint p) div 100"
proof -
  let ?k = "sint a * sint p"
  have prod: "sint (a * p) = ?k"
    using assms by (simp add: sint_word_ariths signed_take_bit_int_eq_self)
  have q: "?k sdiv 100 = ?k div 100"
    using assms(1) by (simp add: signed_divide_int_def sgn_if)
  have "0 \<le> ?k div 100" and "?k div 100 < 2 ^ 63"
    using assms by simp_all
  then have "sint (word_of_int (?k div 100) :: long) = ?k div 100"
    by (simp add: sint_sbintrunc' signed_take_bit_int_eq_self)
  then show ?thesis
    by (simp add: long_div_def prod q)
qed

text \<open>
  Claim C2. A transaction with method code 2 sent by the creator stores message slot 1
  clamped into 0..100 as the new percentage: above 100 it stores 100, below 0 it stores
  0, and a value from 0 to 100 is stored as it is. Nothing else of the machine changes.
\<close>

theorem updatePercentage_clamps:
  assumes "find_tx (txId (currentTx s)) s = Some x"
    and "slot 0 x = UPDATE_PERCENTAGE"
    and "tx_sender x = creator s"
  shows "loop_body s =
     Inr ((load_tx s)\<lparr>percentage :=
        (if 100 < sint (slot 1 x) then 100 else if sint (slot 1 x) < 0 then 0 else slot 1 x)\<rparr>)"
  using assms
  by (simp add: loop_body_def dispatch_def Let_def currentTx_load_tx slot_def magic_codes
      updatePercentage_def getCreator_def word_sless_alt)

theorem updatePercentage_clamps_witness:
  "find_tx (txId (currentTx (fetched (tx 7 10 0 [2, 150]) 0 no_funds)))
      (fetched (tx 7 10 0 [2, 150]) 0 no_funds) = Some (tx 7 10 0 [2, 150])
   \<and> slot 0 (tx 7 10 0 [2, 150]) = UPDATE_PERCENTAGE
   \<and> tx_sender (tx 7 10 0 [2, 150]) = creator (fetched (tx 7 10 0 [2, 150]) 0 no_funds)
   \<and> loop_body (fetched (tx 7 10 0 [2, 150]) 0 no_funds) =
       Inr ((load_tx (fetched (tx 7 10 0 [2, 150]) 0 no_funds))\<lparr>percentage := 100\<rparr>)"
  using updatePercentage_clamps [of "fetched (tx 7 10 0 [2, 150]) 0 no_funds" "tx 7 10 0 [2, 150]"]
  by (simp add: find_tx_def sample_defs slot_def page_def magic_codes)

text \<open>
  Claim C4. A transaction with method code 2 or 4 whose sender is not the creator raises
  no fault and leaves the percentage, the key-value store and every balance as they
  were. The check sits in the handlers: called on their own with such a sender,
  \<open>updatePercentage\<close> and \<open>pullFunds\<close> return the machine unchanged.
\<close>

theorem unauthorized_noop:
  assumes "find_tx (txId (currentTx s)) s = Some x"
    and "slot 0 x = UPDATE_PERCENTAGE \<or> slot 0 x = PULL_FUNDS"
    and "tx_sender x \<noteq> creator s"
  shows "loop_body s = Inr (load_tx s) \<and>
    percentage (load_tx s) = percentage s \<and> kvstore (load_tx s) = kvstore s \<and>
    ledger (load_tx s) = ledger s \<and>
    updatePercentage (slot 1 x) (load_tx s) = Inr (load_tx s) \<and>
    pullFunds (slot 1 x) (load_tx s) = Inr (load_tx s)"
  using assms
  by (auto simp add: loop_body_def dispatch_def Let_def currentTx_load_tx slot_def magic_codes
      updatePercentage_def pullFunds_def getCreator_def)

theorem unauthorized_noop_witness:
  "find_tx (txId (currentTx (fetched (tx 7 11 0 [4, 0]) 30 (set_balance 20 0 500 no_funds))))
      (fetched (tx 7 11 0 [4, 0]) 30 (set_balance 20 0 500 no_funds)) = Some (tx 7 11 0 [4, 0])
   \<and> slot 0 (tx 7 11 0 [4, 0]) = PULL_FUNDS
   \<and> tx_sender (tx 7 11 0 [4, 0]) \<noteq> creator (fetched (tx 7 11 0 [4, 0]) 30 (set_balance 20 0 500 no_funds))
   \<and> loop_body (fetched (tx 7 11 0 [4, 0]) 30 (set_balance 20 0 500 no_funds)) =
       Inr (load_tx (fetched (tx 7 11 0 [4, 0]) 30 (set_balance 20 0 500 no_funds)))
   \<and> balanceOf 20 0 (ledger (load_tx (fetched (tx 7 11 0 [4, 0]) 30 (set_balance 20 0 500 no_funds)))) = 500"
  using unauthorized_noop [of "fetched (tx 7 11 0 [4, 0]) 30 (set_balance 20 0 500 no_funds)" "tx 7 11 0 [4, 0]"]
  by (simp add: find_tx_def sample_defs slot_def page_def magic_codes set_balance_def balanceOf_def)

text \<open>
  Claim C5. A transaction whose message slot 0 is none of the method codes 1, 2, 3, 4
  raises no fault and leaves the percentage, the key-value store and every balance as
  they were.
\<close>

theorem unknown_method_noop:
  assumes "find_tx (txId (currentTx s)) s = Some x"
    and "slot 0 x \<notin> {FORWARD_PERCENTAGE, UPDATE_PERCENTAGE, SET_MAP_VALUE, PULL_FUNDS}"
  shows "loop_body s = Inr (load_tx s) \<and>
    percentage (load_tx s) = percentage s \<and> kvstore (load_tx s) = kvstore s \<and>
    ledger (load_tx s) = ledger s"
  using assms
  by (simp add: loop_body_def dispatch_def Let_def currentTx_load_tx slot_def)

theorem unknown_method_noop_witness:
  "find_tx (txId (currentTx (fetched (tx 7 10 0 [99, 1, 2]) 30 no_funds)))
      (fetched (tx 7 10 0 [99, 1, 2]) 30 no_funds) = Some (tx 7 10 0 [99, 1, 2])
   \<and> slot 0 (tx 7 10 0 [99, 1, 2]) \<notin> {FORWARD_PERCENTAGE, UPDATE_PERCENTAGE, SET_MAP_VALUE, PULL_FUNDS}
   \<and> loop_body (fetched (tx 7 10 0 [99, 1, 2]) 30 no_funds) =
       Inr (load_tx (fetched (tx 7 10 0 [99, 1, 2]) 30 no_funds))
   \<and> percentage (load_tx (fetched (tx 7 10 0 [99, 1, 2]) 30 no_funds)) = 30"
  using unknown_method_noop [of "fetched (tx 7 10 0 [99, 1, 2]) 30 no_funds" "tx 7 10 0 [99, 1, 2]"]
  by (simp add: find_tx_def sample_defs slot_def page_def magic_codes)

text \<open>
  Claim C6. A transaction with method code 3, whoever sent it, writes message slot 2 into
  the key-value store at primary key 1 and the secondary key of message slot 1, whatever
  was stored there before; reading that key afterwards gives the value, and reading a
  key that was never written gives 0.
\<close>

theorem setMapValue_tx:
  assumes "find_tx (txId (currentTx s)) s = Some x"
    and "slot 0 x = SET_MAP_VALUE"
  shows "loop_body s =
      Inr ((load_tx s)\<lparr>kvstore := (kvstore s)((MAP_KEY_EXAMPLE, slot 1 x) \<mapsto> slot 2 x)\<rparr>) \<and>
    MAP_KEY_EXAMPLE = 1 \<and>
    getMapValue 1 (slot 1 x) (run_tx s) = slot 2 x \<and>
    (kvstore s (key1, key2) = None \<longrightarrow> getMapValue key1 key2 s = 0)"
  using assms
  by (auto simp add: run_tx_def catch_def loop_body_def dispatch_def Let_def currentTx_load_tx slot_def magic_codes
      setMapValue_def getMapValue_def)

theorem setMapValue_tx_witness:
  "find_tx (txId (currentTx (fetched (tx 7 11 0 [3, 5, 42]) 0 no_funds)))
      (fetched (tx 7 11 0 [3, 5, 42]) 0 no_funds) = Some (tx 7 11 0 [3, 5, 42])
   \<and> slot 0 (tx 7 11 0 [3, 5, 42]) = SET_MAP_VALUE
   \<and> kvstore (fetched (tx 7 11 0 [3, 5, 42]) 0 no_funds) (1, 5) = None
   \<and> getMapValue 1 5 (fetched (tx 7 11 0 [3, 5, 42]) 0 no_funds) = 0
   \<and> getMapValue 1 5 (run_tx (fetched (tx 7 11 0 [3, 5, 42]) 0 no_funds)) = 42"
  using setMapValue_tx [of "fetched (tx 7 11 0 [3, 5, 42]) 0 no_funds" "tx 7 11 0 [3, 5, 42]" 1 5]
  by (simp add: find_tx_def sample_defs slot_def page_def magic_codes)

text \<open>
  Claim C1, as the code has it. For a transaction with method code 1, whoever sent it:
  when the stored percentage is 0 nothing happens; otherwise the contract asks the ledger
  for a transfer of native funds from its own account to the account in message slot 1,
  and the amount is \<^verbatim>\<open>(amount * percentage) / 100\<close> on 64-bit longs, the product
  wrapping modulo \<open>2 ^ 64\<close> and the quotient truncating towards zero. That amount is
  the floor of the exact quotient whenever the exact product lies in \<open>0 ..< 2 ^ 63\<close>.
\<close>

theorem forwardPercentage_tx:
  assumes "find_tx (txId (currentTx s)) s = Some x"
    and "slot 0 x = FORWARD_PERCENTAGE"
  shows "(percentage s = 0 \<longrightarrow> loop_body s = Inr (load_tx s)) \<and>
    (percentage s \<noteq> 0 \<longrightarrow>
       loop_body s =
         (case transfer (self s) (slot 1 x) 0
                 (long_div (tx_amount x * percentage s) 100) (ledger s) of
            Inl f \<Rightarrow> Inl f
          | Inr L \<Rightarrow> Inr ((load_tx s)\<lparr>ledger := L\<rparr>))) \<and>
    (0 \<le> sint (tx_amount x) * sint (percentage s) \<and>
     sint (tx_amount x) * sint (percentage s) < 2 ^ 63 \<longrightarrow>
       sint (long_div (tx_amount x * percentage s) 100) =
         (sint (tx_amount x) * sint (percentage s)) div 100)"
  using assms
  by (simp add: loop_body_def dispatch_def Let_def currentTx_load_tx slot_def magic_codes
      forwardPercentage_def getAmount_def sendAmount_def sendQuantity_def long_div_exact)

theorem forwardPercentage_tx_witness:
  "find_tx (txId (currentTx (fetched (tx 7 11 1000 [1, 30]) 25 (set_balance 20 0 5000 no_funds))))
      (fetched (tx 7 11 1000 [1, 30]) 25 (set_balance 20 0 5000 no_funds)) =
      Some (tx 7 11 1000 [1, 30])
   \<and> slot 0 (tx 7 11 1000 [1, 30]) = FORWARD_PERCENTAGE
   \<and> percentage (fetched (tx 7 11 1000 [1, 30]) 25 (set_balance 20 0 5000 no_funds)) \<noteq> 0
   \<and> 0 \<le> sint (tx_amount (tx 7 11 1000 [1, 30])) *
           sint (percentage (fetched (tx 7 11 1000 [1, 30]) 25 (set_balance 20 0 5000 no_funds)))
   \<and> sint (tx_amount (tx 7 11 1000 [1, 30])) *
           sint (percentage (fetched (tx 7 11 1000 [1, 30]) 25 (set_balance 20 0 5000 no_funds)))
         < 2 ^ 63
   \<and> loop_body (fetched (tx 7 11 1000 [1, 30]) 25 (set_balance 20 0 5000 no_funds)) =
       Inr ((load_tx (fetched (tx 7 11 1000 [1, 30]) 25 (set_balance 20 0 5000 no_funds)))
             \<lparr>ledger := set_balance 30 0 250 (set_balance 20 0 4750
                  (set_balance 20 0 5000 no_funds))\<rparr>)
   \<and> sint (long_div (1000 * 25) 100) = 250"
  using forwardPercentage_tx [of "fetched (tx 7 11 1000 [1, 30]) 25 (set_balance 20 0 5000 no_funds)"
      "tx 7 11 1000 [1, 30]"]
  by (simp add: find_tx_def sample_defs slot_def page_def magic_codes ledger_defs long_div_def
      word_sless_alt signed_divide_int_def)

text \<open>
  The claim C1 as the spec words it, with the exact product and floor division, fails:
  with 200000000000000000 attached and a percentage of 100 the product exceeds
  \<open>2 ^ 63\<close>, and the recipient gets 15532559262904483, not 200000000000000000.
\<close>

theorem forwardPercentage_floor_counterexample:
  "slot 0 (tx 7 11 200000000000000000 [1, 30]) = FORWARD_PERCENTAGE
   \<and> percentage (fetched (tx 7 11 200000000000000000 [1, 30]) 100
        (set_balance 20 0 200000000000000000 no_funds)) = 100
   \<and> getAmount 7 (fetched (tx 7 11 200000000000000000 [1, 30]) 100
        (set_balance 20 0 200000000000000000 no_funds)) = 200000000000000000
   \<and> (200000000000000000 * 100) div 100 = (200000000000000000 :: int)
   \<and> loop_body (fetched (tx 7 11 200000000000000000 [1, 30]) 100
        (set_balance 20 0 200000000000000000 no_funds)) =
      sendAmount 15532559262904483 30
        (load_tx (fetched (tx 7 11 200000000000000000 [1, 30]) 100
           (set_balance 20 0 200000000000000000 no_funds)))
   \<and> balanceOf 30 0 (ledger (run_tx (fetched (tx 7 11 200000000000000000 [1, 30]) 100
        (set_balance 20 0 200000000000000000 no_funds)))) = 15532559262904483
   \<and> balanceOf 20 0 (ledger (run_tx (fetched (tx 7 11 200000000000000000 [1, 30]) 100
        (set_balance 20 0 200000000000000000 no_funds)))) = 184467440737095517"
  by (simp add: find_tx_def sample_defs slot_def page_def magic_codes ledger_defs long_div_def
      word_sless_alt signed_divide_int_def run_tx_def catch_def loop_body_def load_tx_def
      dispatch_def forwardPercentage_def getAmount_def getSender_def readMessage_def
      sendAmount_def sendQuantity_def Let_def)

text \<open>
  Claim C8, as the code has it. For a non-negative attached amount and a percentage from
  0 to 100 whose exact product stays below \<open>2 ^ 63\<close>, the amount handed to
  \<^verbatim>\<open>sendAmount\<close> is the floor of amount times percentage over 100, and the long
  carries that value exactly. The handler has no overflow check of its own.
\<close>

theorem forwardPercentage_exact:
  assumes "0 \<le> sint (getAmount (txId (currentTx s)) s)"
    and "0 \<le> sint (percentage s)" and "sint (percentage s) \<le> 100"
    and "sint (getAmount (txId (currentTx s)) s) * sint (percentage s) < 2 ^ 63"
  shows "forwardPercentage recipientId s =
      (if percentage s = 0 then Inr s
       else sendAmount
         (word_of_int ((sint (getAmount (txId (currentTx s)) s) * sint (percentage s)) div 100))
         recipientId s) \<and>
    sint (word_of_int ((sint (getAmount (txId (currentTx s)) s) * sint (percentage s)) div 100) :: long) =
      (sint (getAmount (txId (currentTx s)) s) * sint (percentage s)) div 100"
proof -
  let ?a = "getAmount (txId (currentTx s)) s"
  have nonneg: "0 \<le> sint ?a * sint (percentage s)"
    using assms(1,2) by simp
  have exact: "sint (long_div (?a * percentage s) 100) = (sint ?a * sint (percentage s)) div 100"
    using nonneg assms(4) by (rule long_div_exact)
  have "0 \<le> (sint ?a * sint (percentage s)) div 100"
    and "(sint ?a * sint (percentage s)) div 100 < 2 ^ 63"
    using nonneg assms(4) by simp_all
  then have repr: "sint (word_of_int ((sint ?a * sint (percentage s)) div 100) :: long) =
      (sint ?a * sint (percentage s)) div 100"
    by (simp add: sint_sbintrunc' signed_take_bit_int_eq_self)
  with exact have "long_div (?a * percentage s) 100 =
      word_of_int ((sint ?a * sint (percentage s)) div 100)"
    by (simp add: word_eq_iff_signed [where ?'a = int])
  with repr show ?thesis
    by (simp add: forwardPercentage_def Let_def)
qed

theorem forwardPercentage_exact_witness:
  "0 \<le> sint (getAmount (txId (currentTx (fetched (tx 7 11 999 [1, 30]) 33 (set_balance 20 0 5000 no_funds))))
       (fetched (tx 7 11 999 [1, 30]) 33 (set_balance 20 0 5000 no_funds)))
   \<and> 0 \<le> sint (percentage (fetched (tx 7 11 999 [1, 30]) 33 (set_balance 20 0 5000 no_funds)))
   \<and> sint (percentage (fetched (tx 7 11 999 [1, 30]) 33 (set_balance 20 0 5000 no_funds))) \<le> 100
   \<and> sint (getAmount (txId (currentTx (fetched (tx 7 11 999 [1, 30]) 33 (set_balance 20 0 5000 no_funds))))
       (fetched (tx 7 11 999 [1, 30]) 33 (set_balance 20 0 5000 no_funds))) *
      sint (percentage (fetched (tx 7 11 999 [1, 30]) 33 (set_balance 20 0 5000 no_funds))) < 2 ^ 63
   \<and> forwardPercentage 30 (fetched (tx 7 11 999 [1, 30]) 33 (set_balance 20 0 5000 no_funds)) =
       sendAmount 329 30 (fetched (tx 7 11 999 [1, 30]) 33 (set_balance 20 0 5000 no_funds))"
  using forwardPercentage_exact [of "fetched (tx 7 11 999 [1, 30]) 33 (set_balance 20 0 5000 no_funds)" 30]
  by (simp add: find_tx_def sample_defs getAmount_def)

text \<open>
  The claim C8 as the spec words it, for every non-negative amount, fails: the product of
  184467440737095517 and 100 wraps to 84, no fault is raised, and the handler sends 0.
\<close>

theorem forwardPercentage_wraps_counterexample:
  "0 \<le> sint (getAmount (txId (currentTx (fetched (tx 7 11 184467440737095517 [1, 30]) 100
          (set_balance 20 0 184467440737095517 no_funds))))
       (fetched (tx 7 11 184467440737095517 [1, 30]) 100
          (set_balance 20 0 184467440737095517 no_funds)))
   \<and> sint (percentage (fetched (tx 7 11 184467440737095517 [1, 30]) 100
          (set_balance 20 0 184467440737095517 no_funds))) = 100
   \<and> (184467440737095517 * 100) div 100 = (184467440737095517 :: int)
   \<and> (184467440737095517 :: long) * 100 = 84
   \<and> forwardPercentage 30 (fetched (tx 7 11 184467440737095517 [1, 30]) 100
          (set_balance 20 0 184467440737095517 no_funds)) =
      sendAmount 0 30 (fetched (tx 7 11 184467440737095517 [1, 30]) 100
          (set_balance 20 0 184467440737095517 no_funds))
   \<and> balanceOf 30 0 (ledger (run_tx (fetched (tx 7 11 184467440737095517 [1, 30]) 100
          (set_balance 20 0 184467440737095517 no_funds)))) = 0"
  by (simp add: find_tx_def sample_defs slot_def page_def magic_codes ledger_defs long_div_def
      word_sless_alt signed_divide_int_def run_tx_def catch_def loop_body_def load_tx_def
      dispatch_def forwardPercentage_def getAmount_def getSender_def readMessage_def
      sendAmount_def sendQuantity_def Let_def)

text \<open>
  Claim C3, as the code and the ledger have it. For a transaction with method code 4 sent
  by the creator: when message slot 1 is 0 the contract sends its whole native balance to
  the creator, otherwise its whole balance of the asset named by message slot 1; the
  amount is always that full balance, no other slot of the message enters it. When the
  contract is not its own creator and the creator's balance plus that amount stays in
  the ledger's domain \<open>0 .. 2 ^ 63 - 1\<close>, the contract's balance of that asset is 0
  afterwards and the creator's has grown by what the contract held. When the sum leaves
  the domain the ledger answers \<open>Overflow\<close> and no balance moves.
\<close>

theorem pullFunds_tx:
  assumes "find_tx (txId (currentTx s)) s = Some x"
    and "slot 0 x = PULL_FUNDS"
    and "tx_sender x = creator s"
  shows "(slot 1 x = 0 \<longrightarrow> loop_body s = sendBalance (creator s) (load_tx s)) \<and>
    (slot 1 x \<noteq> 0 \<longrightarrow>
       loop_body s =
         sendQuantity (getAssetBalance (slot 1 x) s) (slot 1 x) (creator s) (load_tx s)) \<and>
    (self s \<noteq> creator s \<and>
     0 \<le> sint (balanceOf (creator s) (slot 1 x) (ledger s)) +
       sint (balanceOf (self s) (slot 1 x) (ledger s)) \<and>
     sint (balanceOf (creator s) (slot 1 x) (ledger s)) +
       sint (balanceOf (self s) (slot 1 x) (ledger s)) \<le> 2 ^ 63 - 1 \<longrightarrow>
       loop_body s =
         Inr ((load_tx s)\<lparr>ledger :=
           set_balance (creator s) (slot 1 x)
             (balanceOf (creator s) (slot 1 x) (ledger s) +
              balanceOf (self s) (slot 1 x) (ledger s))
             (set_balance (self s) (slot 1 x) 0 (ledger s))\<rparr>) \<and>
       balanceOf (self s) (slot 1 x) (ledger (run_tx s)) = 0 \<and>
       balanceOf (creator s) (slot 1 x) (ledger (run_tx s)) =
         balanceOf (creator s) (slot 1 x) (ledger s) +
         balanceOf (self s) (slot 1 x) (ledger s)) \<and>
    (self s \<noteq> creator s \<and>
     (sint (balanceOf (creator s) (slot 1 x) (ledger s)) +
        sint (balanceOf (self s) (slot 1 x) (ledger s)) < 0 \<or>
      2 ^ 63 - 1 < sint (balanceOf (creator s) (slot 1 x) (ledger s)) +
        sint (balanceOf (self s) (slot 1 x) (ledger s))) \<longrightarrow>
       loop_body s = Inl Overflow \<and> ledger (run_tx s) = ledger s)"
proof -
  let ?a = "slot 1 x"
  let ?sum = "sint (balanceOf (creator s) ?a (ledger s)) + sint (balanceOf (self s) ?a (ledger s))"
  have body: "loop_body s = pullFunds ?a (load_tx s)"
    using assms(1,2)
    by (simp add: loop_body_def dispatch_def Let_def currentTx_load_tx slot_def magic_codes)
  have auth: "sender (currentTx (load_tx s)) = getCreator (load_tx s)"
    using assms(1,3) by (simp add: currentTx_load_tx getCreator_def)
  have native: "?a = 0 \<Longrightarrow> loop_body s = sendBalance (creator s) (load_tx s)"
    using auth by (simp add: body pullFunds_def getCreator_def)
  have asset: "?a \<noteq> 0 \<Longrightarrow> loop_body s =
      sendQuantity (getAssetBalance ?a s) ?a (creator s) (load_tx s)"
    using auth by (simp add: body pullFunds_def getCreator_def getAssetBalance_def)
  have full: "loop_body s =
      sendQuantity (balanceOf (self s) ?a (ledger s)) ?a (creator s) (load_tx s)"
    using native asset
    by (cases "?a = 0") (simp_all add: sendBalance_def sendAmount_def getAssetBalance_def)
  have effect: "loop_body s =
         Inr ((load_tx s)\<lparr>ledger :=
           set_balance (creator s) ?a
             (balanceOf (creator s) ?a (ledger s) + balanceOf (self s) ?a (ledger s))
             (set_balance (self s) ?a 0 (ledger s))\<rparr>)"
    if "self s \<noteq> creator s" and "0 \<le> ?sum" and "?sum \<le> 2 ^ 63 - 1"
    using that by (simp add: full sendQuantity_def ledger_defs)
  have refused: "loop_body s = Inl Overflow"
    if "self s \<noteq> creator s" and "?sum < 0 \<or> 2 ^ 63 - 1 < ?sum"
    using that by (auto simp: full sendQuantity_def ledger_defs)
  have moved: "balanceOf (self s) ?a (ledger (run_tx s)) = 0 \<and>
      balanceOf (creator s) ?a (ledger (run_tx s)) =
        balanceOf (creator s) ?a (ledger s) + balanceOf (self s) ?a (ledger s)"
    if "self s \<noteq> creator s" and "0 \<le> ?sum" and "?sum \<le> 2 ^ 63 - 1"
    using that effect by (simp add: run_tx_def catch_def balanceOf_def set_balance_def)
  have kept: "ledger (run_tx s) = ledger s"
    if "self s \<noteq> creator s" and "?sum < 0 \<or> 2 ^ 63 - 1 < ?sum"
    using refused [OF that] by (simp add: run_tx_def catch_def)
  show ?thesis
    using native asset effect moved refused kept by blast
qed

theorem pullFunds_tx_witness:
  "find_tx (txId (currentTx (fetched (tx 7 10 0 [4, 0]) 30 (set_balance 20 0 500 no_funds))))
      (fetched (tx 7 10 0 [4, 0]) 30 (set_balance 20 0 500 no_funds)) = Some (tx 7 10 0 [4, 0])
   \<and> slot 0 (tx 7 10 0 [4, 0]) = PULL_FUNDS
   \<and> tx_sender (tx 7 10 0 [4, 0]) = creator (fetched (tx 7 10 0 [4, 0]) 30 (set_balance 20 0 500 no_funds))
   \<and> slot 1 (tx 7 10 0 [4, 0]) = 0
   \<and> self (fetched (tx 7 10 0 [4, 0]) 30 (set_balance 20 0 500 no_funds)) \<noteq>
       creator (fetched (tx 7 10 0 [4, 0]) 30 (set_balance 20 0 500 no_funds))
   \<and> sint (balanceOf 10 0 (ledger (fetched (tx 7 10 0 [4, 0]) 30 (set_balance 20 0 500 no_funds)))) +
       sint (balanceOf 20 0 (ledger (fetched (tx 7 10 0 [4, 0]) 30 (set_balance 20 0 500 no_funds)))) = 500
   \<and> balanceOf 20 0 (ledger (run_tx (fetched (tx 7 10 0 [4, 0]) 30 (set_balance 20 0 500 no_funds)))) = 0
   \<and> balanceOf 10 0 (ledger (run_tx (fetched (tx 7 10 0 [4, 0]) 30 (set_balance 20 0 500 no_funds)))) = 500
   \<and> find_tx (txId (currentTx (fetched (tx 8 10 0 [4, 3]) 30
         (set_balance 10 3 9223372036854775800 (set_balance 20 3 8 no_funds)))))
      (fetched (tx 8 10 0 [4, 3]) 30
         (set_balance 10 3 9223372036854775800 (set_balance 20 3 8 no_funds))) =
      Some (tx 8 10 0 [4, 3])
   \<and> slot 1 (tx 8 10 0 [4, 3]) = 3
   \<and> 2 ^ 63 - 1 <
       sint (balanceOf 10 3 (ledger (fetched (tx 8 10 0 [4, 3]) 30
         (set_balance 10 3 9223372036854775800 (set_balance 20 3 8 no_funds))))) +
       sint (balanceOf 20 3 (ledger (fetched (tx 8 10 0 [4, 3]) 30
         (set_balance 10 3 9223372036854775800 (set_balance 20 3 8 no_funds)))))
   \<and> loop_body (fetched (tx 8 10 0 [4, 3]) 30
         (set_balance 10 3 9223372036854775800 (set_balance 20 3 8 no_funds))) = Inl Overflow"
  using pullFunds_tx [of "fetched (tx 7 10 0 [4, 0]) 30 (set_balance 20 0 500 no_funds)" "tx 7 10 0 [4, 0]"]
    pullFunds_tx [of "fetched (tx 8 10 0 [4, 3]) 30
         (set_balance 10 3 9223372036854775800 (set_balance 20 3 8 no_funds))" "tx 8 10 0 [4, 3]"]
  by (clarsimp simp: find_tx_def sample_defs slot_def page_def magic_codes ledger_defs)

text \<open>
  The claim C3 as the spec words it, for every state, fails on the ledger's own fault:
  with the creator at \<open>2 ^ 63 - 1\<close> and the contract holding 500, the credit of the
  pulled funds is refused with \<open>Overflow\<close>, and the contract keeps its 500.
\<close>

theorem pullFunds_overflow_counterexample:
  "slot 0 (tx 7 10 0 [4, 0]) = PULL_FUNDS
   \<and> slot 1 (tx 7 10 0 [4, 0]) = 0
   \<and> tx_sender (tx 7 10 0 [4, 0]) =
       creator (fetched (tx 7 10 0 [4, 0]) 30
         (set_balance 10 0 9223372036854775807 (set_balance 20 0 500 no_funds)))
   \<and> loop_body (fetched (tx 7 10 0 [4, 0]) 30
         (set_balance 10 0 9223372036854775807 (set_balance 20 0 500 no_funds))) = Inl Overflow
   \<and> balanceOf 20 0 (ledger (run_tx (fetched (tx 7 10 0 [4, 0]) 30
         (set_balance 10 0 9223372036854775807 (set_balance 20 0 500 no_funds))))) = 500
   \<and> balanceOf 10 0 (ledger (run_tx (fetched (tx 7 10 0 [4, 0]) 30
         (set_balance 10 0 9223372036854775807 (set_balance 20 0 500 no_funds))))) =
       9223372036854775807"
  by (simp add: find_tx_def sample_defs slot_def page_def magic_codes ledger_defs
      word_sless_alt run_tx_def catch_def loop_body_def load_tx_def dispatch_def
      pullFunds_def getCreator_def getSender_def readMessage_def sendBalance_def
      sendAmount_def sendQuantity_def Let_def)

lemma sendQuantity_percentage:
  fixes s :: machine
  shows "sendQuantity a k r s = Inr s' \<Longrightarrow> percentage s' = percentage s"
  by (auto simp: sendQuantity_def split: sum.splits)

lemma forwardPercentage_percentage:
  "forwardPercentage r s = Inr s' \<Longrightarrow> percentage s' = percentage s"
  by (auto simp: forwardPercentage_def Let_def sendAmount_def
      split: if_splits dest: sendQuantity_percentage)

lemma pullFunds_percentage:
  "pullFunds t s = Inr s' \<Longrightarrow> percentage s' = percentage s"
  by (auto simp: pullFunds_def sendBalance_def sendAmount_def
      split: if_splits dest: sendQuantity_percentage)

lemma updatePercentage_ok:
  "updatePercentage v s = Inr s' \<Longrightarrow> percentage_ok s \<Longrightarrow> percentage_ok s'"
  by (auto simp: updatePercentage_def percentage_ok_def word_sless_alt split: if_splits)

lemma dispatch_percentage:
  assumes "dispatch s = Inr s'" and "message (currentTx s) ! 0 \<noteq> UPDATE_PERCENTAGE"
  shows "percentage s' = percentage s"
  using assms
  by (auto simp: dispatch_def Let_def setMapValue_def
      split: if_splits dest: forwardPercentage_percentage pullFunds_percentage)

lemma dispatch_percentage_ok:
  assumes "dispatch s = Inr s'" and "percentage_ok s"
  shows "percentage_ok s'"
proof (cases "message (currentTx s) ! 0 = UPDATE_PERCENTAGE")
  case True
  with assms show ?thesis
    by (auto simp: dispatch_def Let_def magic_codes dest: updatePercentage_ok)
next
  case False
  with assms show ?thesis
    by (auto simp: percentage_ok_def dest: dispatch_percentage)
qed

lemma run_tx_percentage_ok: "percentage_ok s \<Longrightarrow> percentage_ok (run_tx s)"
proof (cases "dispatch (load_tx s)")
  case (Inl f)
  assume "percentage_ok s"
  with Inl show ?thesis
    by (simp add: run_tx_def catch_def loop_body_def percentage_ok_def)
next
  case (Inr s')
  assume "percentage_ok s"
  then have "percentage_ok (load_tx s)"
    by (simp add: percentage_ok_def)
  with Inr have "percentage_ok s'"
    by (rule dispatch_percentage_ok)
  with Inr show ?thesis
    by (simp add: run_tx_def catch_def loop_body_def)
qed

lemma main_percentage_ok: "percentage_ok s \<Longrightarrow> percentage_ok (main s)"
proof (induction s rule: main.induct)
  case (1 s)
  obtain nxt s0 where g: "getNextTx s = (nxt, s0)"
    by (cases "getNextTx s")
  then have "percentage s0 = percentage s"
    by (auto simp: getNextTx_def split: if_splits)
  with "1.prems" have ok: "percentage_ok (set_txId nxt s0)"
    by (simp add: percentage_ok_def set_txId_def)
  show ?case
  proof (cases "nxt = 0")
    case True
    with g ok show ?thesis by (subst main.simps) simp
  next
    case False
    have "percentage_ok (main (run_tx (set_txId nxt s0)))"
      using g False ok by (intro "1.IH" [OF g [symmetric] refl] run_tx_percentage_ok)
    with g False show ?thesis by (subst main.simps) simp
  qed
qed

text \<open>
  Claim C9. A percentage from 0 to 100 stays in that range through every round of the
  loop, whatever the transaction, and so through the whole of \<^verbatim>\<open>main\<close>; a
  transaction whose method code is not 2 leaves the percentage as it was.
\<close>

theorem percentage_invariant:
  assumes "percentage_ok s"
  shows "percentage_ok (run_tx s) \<and> percentage_ok (main s) \<and>
    (message (currentTx (load_tx s)) ! 0 \<noteq> UPDATE_PERCENTAGE \<longrightarrow>
       percentage (run_tx s) = percentage s)"
proof -
  have "percentage (run_tx s) = percentage s"
    if "message (currentTx (load_tx s)) ! 0 \<noteq> UPDATE_PERCENTAGE"
    using that dispatch_percentage [of "load_tx s"]
    by (cases "dispatch (load_tx s)") (simp_all add: run_tx_def catch_def loop_body_def)
  with assms show ?thesis
    by (simp add: run_tx_percentage_ok main_percentage_ok)
qed

theorem percentage_invariant_witness:
  "percentage_ok (fetched (tx 7 10 0 [2, 150]) 30 no_funds)
   \<and> percentage_ok (run_tx (fetched (tx 7 10 0 [2, 150]) 30 no_funds))
   \<and> percentage (run_tx (fetched (tx 7 10 0 [2, 150]) 30 no_funds)) = 100
   \<and> percentage_ok (main (fetched (tx 7 10 0 [2, 150]) 30 no_funds))"
  using percentage_invariant [of "fetched (tx 7 10 0 [2, 150]) 30 no_funds"]
  by (simp add: percentage_ok_def sample_defs run_tx_def catch_def loop_body_def load_tx_def
      Let_def find_tx_def getSender_def readMessage_def page_def dispatch_def magic_codes
      updatePercentage_def getCreator_def word_sless_alt main.simps)

lemma sendQuantity_host:
  "sendQuantity a k r s = Inr s' \<Longrightarrow>
   queue s' = queue s \<and> cursor s' = cursor s \<and> creator s' = creator s \<and> self s' = self s"
  by (auto simp: sendQuantity_def split: sum.splits)

lemma dispatch_host:
  "dispatch s = Inr s' \<Longrightarrow>
   queue s' = queue s \<and> cursor s' = cursor s \<and> creator s' = creator s \<and> self s' = self s"
  by (auto simp: dispatch_def Let_def forwardPercentage_def updatePercentage_def
      pullFunds_def setMapValue_def sendAmount_def sendBalance_def
      split: if_splits dest: sendQuantity_host)

lemma catch_host:
  "queue (catch s (dispatch s)) = queue s" "cursor (catch s (dispatch s)) = cursor s"
  "creator (catch s (dispatch s)) = creator s" "self (catch s (dispatch s)) = self s"
  by (auto simp: catch_def split: sum.splits dest: dispatch_host)

lemma run_tx_host [simp]:
  "queue (run_tx s) = queue s" "cursor (run_tx s) = cursor s"
  "creator (run_tx s) = creator s" "self (run_tx s) = self s"
  by (simp_all add: run_tx_def loop_body_def catch_host)

lemma process_host [simp]:
  "queue (process x s) = queue s" "cursor (process x s) = Suc (cursor s)"
  by (simp_all add: process_def Let_def catch_host)

lemma find_distinct:
  "distinct (map tx_id q) \<Longrightarrow> x \<in> set q \<Longrightarrow> find (\<lambda>y. tx_id y = tx_id x) q = Some x"
  by (induction q) auto

lemma run_tx_process:
  assumes "distinct (map tx_id (queue s))" and "x \<in> set (queue s)"
  shows "run_tx (set_txId (tx_id x) (s\<lparr>cursor := Suc (cursor s)\<rparr>)) = process x s"
proof -
  have "load_tx (set_txId (tx_id x) (s\<lparr>cursor := Suc (cursor s)\<rparr>)) =
      s\<lparr>cursor := Suc (cursor s),
        currentTx := \<lparr>txId = tx_id x, sender = tx_sender x,
                      message = page 0 (tx_payload x)\<rparr>\<rparr>"
    using assms
    by (simp add: load_tx_def set_txId_def Let_def getSender_def readMessage_def find_tx_def
        find_distinct)
  then show ?thesis
    by (simp add: run_tx_def loop_body_def process_def Let_def)
qed

lemma foldl_process_host [simp]:
  "queue (foldl (\<lambda>a x. process x a) s xs) = queue s"
  "cursor (foldl (\<lambda>a x. process x a) s xs) = cursor s + length xs"
  by (induction xs arbitrary: s) simp_all

lemma main_fold:
  "distinct (map tx_id (queue s)) \<Longrightarrow> 0 \<notin> tx_id ` set (queue s) \<Longrightarrow>
   main s = set_txId 0 (foldl (\<lambda>a x. process x a) s (drop (cursor s) (queue s)))"
proof (induction s rule: main.induct)
  case (1 s)
  show ?case
  proof (cases "cursor s < length (queue s)")
    case False
    then have "getNextTx s = (0, s)"
      by (simp add: getNextTx_def)
    with False show ?thesis
      by (subst main.simps) simp
  next
    case True
    define x where "x = queue s ! cursor s"
    define s1 where "s1 = set_txId (tx_id x) (s\<lparr>cursor := Suc (cursor s)\<rparr>)"
    have mem: "x \<in> set (queue s)"
      using True by (simp add: x_def)
    with "1.prems"(2) have nz: "tx_id x \<noteq> 0"
      by auto
    have g: "getNextTx s = (tx_id x, s\<lparr>cursor := Suc (cursor s)\<rparr>)"
      using True by (simp add: getNextTx_def x_def)
    have step: "run_tx s1 = process x s"
      unfolding s1_def using "1.prems"(1) mem by (rule run_tx_process)
    have "main (run_tx s1) =
        set_txId 0 (foldl (\<lambda>a x. process x a) (run_tx s1)
          (drop (cursor (run_tx s1)) (queue (run_tx s1))))"
      using "1.prems" nz
      by (intro "1.IH" [OF g [symmetric] s1_def]) (simp_all add: s1_def set_txId_def)
    then have "main (run_tx s1) =
        set_txId 0 (foldl (\<lambda>a x. process x a) (process x s) (drop (Suc (cursor s)) (queue s)))"
      by (simp add: step)
    moreover have "drop (cursor s) (queue s) = x # drop (Suc (cursor s)) (queue s)"
      using True by (simp add: x_def Cons_nth_drop_Suc)
    moreover have "main s = main (run_tx s1)"
      using g nz by (subst main.simps) (simp add: s1_def)
    ultimately show ?thesis
      by simp
  qed
qed

text \<open>
  Claim C7. On a block whose transaction ids are distinct and none of which is the
  sentinel 0, \<^verbatim>\<open>main\<close> handles the transactions from the read cursor on, each one
  once and in queue order, reading id, sender and message of a transaction before it
  dispatches it; it returns when \<^verbatim>\<open>getNextTx\<close> gives 0, with the queue used up.
  That \<^verbatim>\<open>main\<close> returns at all is its termination proof.
\<close>

theorem main_in_queue_order:
  assumes "distinct (map tx_id (queue s))" and "0 \<notin> tx_id ` set (queue s)"
  shows "main s = set_txId 0 (foldl (\<lambda>a x. process x a) s (drop (cursor s) (queue s))) \<and>
    fst (getNextTx (main s)) = 0 \<and> txId (currentTx (main s)) = 0"
proof -
  have eq: "main s = set_txId 0 (foldl (\<lambda>a x. process x a) s (drop (cursor s) (queue s)))"
    using assms by (rule main_fold)
  have "length (queue s) \<le> cursor (main s)" and "queue (main s) = queue s"
    by (simp_all add: eq set_txId_def)
  then have "fst (getNextTx (main s)) = 0"
    by (simp add: getNextTx_def)
  moreover have "txId (currentTx (main s)) = 0"
    by (simp add: eq set_txId_def)
  ultimately show ?thesis
    using eq by simp
qed

theorem main_in_queue_order_witness:
  "distinct (map tx_id (queue (deploy None
      (block [tx 1 10 0 [2, 150], tx 2 11 100 [1, 30], tx 3 10 0 [4, 0]]
         (set_balance 20 0 1000 no_funds)))))
   \<and> 0 \<notin> tx_id ` set (queue (deploy None
      (block [tx 1 10 0 [2, 150], tx 2 11 100 [1, 30], tx 3 10 0 [4, 0]]
         (set_balance 20 0 1000 no_funds))))
   \<and> main (deploy None
      (block [tx 1 10 0 [2, 150], tx 2 11 100 [1, 30], tx 3 10 0 [4, 0]]
         (set_balance 20 0 1000 no_funds))) =
     set_txId 0 (process (tx 3 10 0 [4, 0]) (process (tx 2 11 100 [1, 30])
       (process (tx 1 10 0 [2, 150]) (deploy None
      (block [tx 1 10 0 [2, 150], tx 2 11 100 [1, 30], tx 3 10 0 [4, 0]]
         (set_balance 20 0 1000 no_funds))))))
   \<and> fst (getNextTx (main (deploy None
      (block [tx 1 10 0 [2, 150], tx 2 11 100 [1, 30], tx 3 10 0 [4, 0]]
         (set_balance 20 0 1000 no_funds))))) = 0
   \<and> balanceOf 30 0 (ledger (main (deploy None
      (block [tx 1 10 0 [2, 150], tx 2 11 100 [1, 30], tx 3 10 0 [4, 0]]
         (set_balance 20 0 1000 no_funds))))) = 100
   \<and> balanceOf 10 0 (ledger (main (deploy None
      (block [tx 1 10 0 [2, 150], tx 2 11 100 [1, 30], tx 3 10 0 [4, 0]]
         (set_balance 20 0 1000 no_funds))))) = 900
   \<and> balanceOf 20 0 (ledger (main (deploy None
      (block [tx 1 10 0 [2, 150], tx 2 11 100 [1, 30], tx 3 10 0 [4, 0]]
         (set_balance 20 0 1000 no_funds))))) = 0"
  using main_in_queue_order [of "deploy None
      (block [tx 1 10 0 [2, 150], tx 2 11 100 [1, 30], tx 3 10 0 [4, 0]]
         (set_balance 20 0 1000 no_funds))"]
  by (clarsimp simp: deploy_def block_def tx_def process_def catch_def dispatch_def Let_def
      page_def magic_codes updatePercentage_def forwardPercentage_def pullFunds_def
      getCreator_def getAmount_def find_tx_def sendAmount_def sendBalance_def sendQuantity_def
      getAssetBalance_def ledger_defs long_div_def signed_divide_int_def word_sless_alt
      set_txId_def no_funds_def)

lemma run_tx_keeps_percentage:
  assumes "find_tx (txId (currentTx s)) s = Some x"
    and "\<not> (slot 0 x = UPDATE_PERCENTAGE \<and> tx_sender x = creator s)"
  shows "percentage (run_tx s) = percentage s"
proof (cases "slot 0 x = UPDATE_PERCENTAGE")
  case True
  with assms have "loop_body s = Inr (load_tx s)"
    by (simp add: loop_body_def dispatch_def Let_def currentTx_load_tx slot_def magic_codes
        updatePercentage_def getCreator_def)
  then show ?thesis
    by (simp add: run_tx_def catch_def)
next
  case False
  with assms(1) have "message (currentTx (load_tx s)) ! 0 \<noteq> UPDATE_PERCENTAGE"
    by (simp add: currentTx_load_tx slot_def)
  then show ?thesis
    using dispatch_percentage [of "load_tx s"]
    by (cases "dispatch (load_tx s)") (simp_all add: run_tx_def catch_def loop_body_def)
qed

lemma forward_at_zero:
  assumes "find_tx (txId (currentTx s)) s = Some x"
    and "slot 0 x = FORWARD_PERCENTAGE" and "percentage s = 0"
  shows "loop_body s = Inr (load_tx s)"
  using assms
  by (simp add: loop_body_def dispatch_def Let_def currentTx_load_tx slot_def magic_codes
      forwardPercentage_def)

text \<open>
  Claim C10, as the code has it. A contract built without \<^verbatim>\<open>TESTBED\<close>, or with
  \<^verbatim>\<open>TESTBED_percentage\<close> equal to 0, starts with percentage 0, the constructor
  changing nothing. While the percentage is 0, a transaction that is not an
  UpdatePercentage sent by the creator leaves it at 0, and a ForwardPercentage transaction
  transfers nothing: the handler returns before \<^verbatim>\<open>sendAmount\<close>, and the ledger is
  as it was.
\<close>

theorem fresh_contract_forwards_nothing:
  "percentage (constructor (deploy None h)) = 0 \<and>
   percentage (constructor (deploy (Some (0, t)) h)) = 0 \<and>
   (percentage s = 0 \<and> find_tx (txId (currentTx s)) s = Some x \<and>
    \<not> (slot 0 x = UPDATE_PERCENTAGE \<and> tx_sender x = creator s) \<longrightarrow>
      percentage (run_tx s) = 0) \<and>
   (percentage s = 0 \<and> find_tx (txId (currentTx s)) s = Some x \<and>
    slot 0 x = FORWARD_PERCENTAGE \<longrightarrow>
      loop_body s = Inr (load_tx s) \<and> ledger (run_tx s) = ledger s)"
  using run_tx_keeps_percentage [of s x] forward_at_zero [of s x]
  by (auto simp: constructor_def deploy_def run_tx_def catch_def)

theorem fresh_contract_forwards_nothing_witness:
  "percentage (fetch (constructor (deploy None
       (block [tx 7 11 100 [1, 30]] (set_balance 20 0 100 no_funds))))) = 0
   \<and> find_tx 7 (fetch (constructor (deploy None
       (block [tx 7 11 100 [1, 30]] (set_balance 20 0 100 no_funds))))) = Some (tx 7 11 100 [1, 30])
   \<and> slot 0 (tx 7 11 100 [1, 30]) = FORWARD_PERCENTAGE
   \<and> balanceOf 30 0 (ledger (run_tx (fetch (constructor (deploy None
       (block [tx 7 11 100 [1, 30]] (set_balance 20 0 100 no_funds))))))) = 0
   \<and> balanceOf 20 0 (ledger (run_tx (fetch (constructor (deploy None
       (block [tx 7 11 100 [1, 30]] (set_balance 20 0 100 no_funds))))))) = 100"
  using fresh_contract_forwards_nothing [of "block [tx 7 11 100 [1, 30]] (set_balance 20 0 100 no_funds)" 0
    "fetch (constructor (deploy None
       (block [tx 7 11 100 [1, 30]] (set_balance 20 0 100 no_funds))))" "tx 7 11 100 [1, 30]"]
  by (clarsimp simp: constructor_def find_tx_def sample_defs slot_def page_def magic_codes ledger_defs)

text \<open>
  The claim C10 as the spec words it, for every freshly constructed contract, fails under
  \<^verbatim>\<open>#ifdef TESTBED\<close>: built with \<^verbatim>\<open>TESTBED_percentage\<close> 50 the contract starts
  with percentage 50, and its first ForwardPercentage transaction, with 100 attached,
  moves 50 to the recipient.
\<close>

theorem testbed_percentage_counterexample:
  "percentage (constructor (deploy (Some (50, 0))
      (block [tx 7 11 100 [1, 30]] (set_balance 20 0 100 no_funds)))) = 50
   \<and> slot 0 (tx 7 11 100 [1, 30]) = FORWARD_PERCENTAGE
   \<and> balanceOf 30 0 (ledger (main (constructor (deploy (Some (50, 0))
      (block [tx 7 11 100 [1, 30]] (set_balance 20 0 100 no_funds)))))) = 50
   \<and> balanceOf 20 0 (ledger (main (constructor (deploy (Some (50, 0))
      (block [tx 7 11 100 [1, 30]] (set_balance 20 0 100 no_funds)))))) = 50"
  by (simp add: main.simps constructor_def find_tx_def sample_defs slot_def page_def magic_codes
      ledger_defs long_div_def word_sless_alt signed_divide_int_def run_tx_def catch_def
      loop_body_def load_tx_def dispatch_def forwardPercentage_def getAmount_def getSender_def
      readMessage_def sendAmount_def sendQuantity_def Let_def)

end
